theory Spec2Isabelle
  imports Complex_Main "HOL-Library.Word"
begin

section \<open>Data model (src/types.ts, src/App.tsx lines 11-22)\<close>

text \<open>
  The orchestrator is the React component \<open>App\<close>. Its state is two pieces of React
  state (\<open>status\<close>, \<open>lastTranscript\<close>) and a handful of refs. Every handler of the
  component is modelled as a function from the state before the handler runs to the state
  after it. Calls into the browser (timers, audio nodes, media tracks, the transport
  session, speech synthesis) change browser-side objects; those objects are the last
  fields of the state record, updated with the documented meaning of the call.

  Times (\<open>AudioContext.currentTime\<close>, \<open>AudioBuffer.duration\<close>, the cursor
  \<open>nextStartTimeRef\<close>) are doubles in the source and real numbers here.
\<close>

datatype AppState = IDLE | CONNECTING | ACTIVE | ERROR

text \<open>
  An \<open>AudioBuffer\<close> of the Web Audio API: \<open>length\<close> sample frames at \<open>sampleRate\<close>
  frames per second. Its read-only attribute \<open>duration\<close> is \<open>length / sampleRate\<close>.
\<close>

record AudioBuffer =
  buf_length :: nat
  buf_sampleRate :: nat

definition duration :: "AudioBuffer \<Rightarrow> real" where
  "duration b = real (buf_length b) / real (buf_sampleRate b)"

record AudioContext =
  sampleRate :: nat

text \<open>A media stream is the list of its tracks; a track is named by a number.\<close>

type_synonym MediaStream = "nat list"

record HTMLVideoElement =
  srcObject :: "MediaStream option"
  videoWidth :: nat
  videoHeight :: nat

record HTMLCanvasElement =
  canvas_width :: nat
  canvas_height :: nat

text \<open>
  One call \<open>source.start(when)\<close> on a freshly created buffer source node:
  the node, the buffer assigned to it and the start time passed.
\<close>

datatype Playback = Playback (node: nat) (buffer: AudioBuffer) (startAt: real)

text \<open>
  The \<open>media\<close> member of a payload handed to \<open>sendRealtimeInput\<close>. An image frame
  carries base64 text (\<open>None\<close> is JavaScript's \<open>undefined\<close>), an audio frame carries
  bytes.
\<close>

datatype MediaData = Base64 "string option" | Binary "8 word list"

record Blob =
  data :: MediaData
  mimeType :: string

text \<open>
  The five fixed sentences passed to \<open>speak\<close>:
  starting (line 39), assistant active (line 86), connection error (line 76),
  assistant switched off (line 80), camera or microphone not accessible (line 130).
\<close>

datatype Utterance = SayStarting | SayActive | SayConnectionError | SayOff | SayNoDevice

record app =
  status :: AppState
  lastTranscript :: string
  videoRef :: "HTMLVideoElement option"
  canvasRef :: "HTMLCanvasElement option"
  audioContextRef :: "AudioContext option"
  inputAudioContextRef :: "AudioContext option"
  sessionRef :: "nat option"
  nextStartTimeRef :: real
  activeSourcesRef :: "nat set"
  frameIntervalRef :: "nat option"
  timers :: "nat set"
  nextTimer :: nat
  nextNode :: nat
  started :: "Playback list"
  stopped :: "nat set"
  closedSessions :: "nat set"
  endedTracks :: "nat set"
  sent :: "Blob list"
  spoken :: "Utterance list"

text \<open>
  Browser-side fields: \<open>timers\<close> are the interval handles that still fire;
  \<open>nextTimer\<close> is the last handle \<open>setInterval\<close> gave out (handles are positive);
  \<open>nextNode\<close> names the next node \<open>createBufferSource\<close> makes; \<open>started\<close> logs
  the calls of \<open>source.start\<close> in order; \<open>stopped\<close> are the nodes on which
  \<open>stop()\<close> was called; \<open>closedSessions\<close> the sessions on which \<open>close()\<close> was
  called; \<open>endedTracks\<close> the tracks on which \<open>stop()\<close> was called; \<open>sent\<close> logs
  the payloads given to \<open>sendRealtimeInput\<close>; \<open>spoken\<close> logs the calls of \<open>speak\<close>.
  \<open>console.error\<close> is not modelled.
\<close>

text \<open>The component as first rendered and mounted, before any click (lines 11-22).\<close>

definition initial_app :: app where
  "initial_app =
     \<lparr> status = IDLE, lastTranscript = [],
       videoRef = Some \<lparr> srcObject = None, videoWidth = 0, videoHeight = 0 \<rparr>,
       canvasRef = Some \<lparr> canvas_width = 300, canvas_height = 150 \<rparr>,
       audioContextRef = None, inputAudioContextRef = None, sessionRef = None,
       nextStartTimeRef = 0, activeSourcesRef = {}, frameIntervalRef = None,
       timers = {}, nextTimer = 0, nextNode = 0, started = [], stopped = {},
       closedSessions = {}, endedTracks = {}, sent = [], spoken = [] \<rparr>"

section \<open>Handlers of src/App.tsx\<close>

definition speak :: "Utterance \<Rightarrow> app \<Rightarrow> app" where
  "speak u s = s\<lparr> spoken := spoken s @ [u] \<rparr>"

text \<open>\<open>stopAudio\<close>, lines 30-34.\<close>

definition stopAudio :: "app \<Rightarrow> app" where
  "stopAudio s =
     s\<lparr> stopped := stopped s \<union> activeSourcesRef s,
        activeSourcesRef := {},
        nextStartTimeRef := 0 \<rparr>"

text \<open>
  \<open>onAudioOutput\<close>, lines 57-68. The second argument is what \<open>ctx.currentTime\<close>
  reads when the callback runs.
\<close>

definition onAudioOutput :: "AudioBuffer \<Rightarrow> real \<Rightarrow> app \<Rightarrow> app" where
  "onAudioOutput buf currentTime s =
     (case audioContextRef s of
        None \<Rightarrow> s
      | Some ctx \<Rightarrow>
          let s1 = s\<lparr> nextStartTimeRef := max (nextStartTimeRef s) currentTime \<rparr>;
              source = nextNode s1;
              s2 = s1\<lparr> nextNode := Suc source \<rparr>;
              s3 = s2\<lparr> started := started s2 @ [Playback source buf (nextStartTimeRef s2)] \<rparr>;
              s4 = s3\<lparr> nextStartTimeRef := nextStartTimeRef s3 + duration buf \<rparr>
          in s4\<lparr> activeSourcesRef := insert source (activeSourcesRef s4) \<rparr>)"

text \<open>\<open>source.onended\<close>, line 64.\<close>

definition onended :: "nat \<Rightarrow> app \<Rightarrow> app" where
  "onended source s = s\<lparr> activeSourcesRef := activeSourcesRef s - {source} \<rparr>"

text \<open>\<open>onInterrupted\<close>, line 69.\<close>

definition onInterrupted :: "app \<Rightarrow> app" where
  "onInterrupted s = stopAudio s"

text \<open>\<open>onTranscription\<close>, lines 70-72.\<close>

definition onTranscription :: "string \<Rightarrow> bool \<Rightarrow> app \<Rightarrow> app" where
  "onTranscription text isUser s = (if \<not> isUser then s\<lparr> lastTranscript := text \<rparr> else s)"

text \<open>\<open>onError\<close>, lines 73-77, and \<open>onClose\<close>, lines 78-81.\<close>

definition onError :: "app \<Rightarrow> app" where
  "onError s = speak SayConnectionError (s\<lparr> status := ERROR \<rparr>)"

definition onClose :: "app \<Rightarrow> app" where
  "onClose s = speak SayOff (s\<lparr> status := IDLE \<rparr>)"

text \<open>
  \<open>startAssistance\<close>, lines 36-132, is asynchronous: it runs to the first \<open>await\<close>
  (\<open>getUserMedia\<close>), resumes with the stream or the rejection, runs to the second
  \<open>await\<close> (the session promise) and resumes with the session or the rejection. Each
  of the three synchronous parts is one function; the outcome of the awaited promise is
  its argument (\<open>None\<close> is a rejection, which enters the \<open>catch\<close> block).
\<close>

definition startAssistance_begin :: "app \<Rightarrow> app" where
  "startAssistance_begin s =
     (let s1 = speak SayStarting (s\<lparr> status := CONNECTING \<rparr>)
      in s1\<lparr> audioContextRef := Some \<lparr> sampleRate = 24000 \<rparr>,
             inputAudioContextRef := Some \<lparr> sampleRate = 16000 \<rparr> \<rparr>)"

definition startAssistance_catch :: "app \<Rightarrow> app" where
  "startAssistance_catch s = speak SayNoDevice (s\<lparr> status := ERROR \<rparr>)"

definition startAssistance_gotMedia :: "MediaStream option \<Rightarrow> app \<Rightarrow> app" where
  "startAssistance_gotMedia r s =
     (case r of
        None \<Rightarrow> startAssistance_catch s
      | Some stream \<Rightarrow>
          (case videoRef s of
             None \<Rightarrow> s
           | Some video \<Rightarrow> s\<lparr> videoRef := Some (video\<lparr> srcObject := Some stream \<rparr>) \<rparr>))"

text \<open>
  After the session promise resolves (lines 84-125): the session is stored, the status
  becomes ACTIVE, the frame interval is created and its handle stored. The script
  processor is connected here too; its callback is \<open>onaudioprocess\<close> below.
\<close>

definition startAssistance_connected :: "nat option \<Rightarrow> app \<Rightarrow> app" where
  "startAssistance_connected r s =
     (case r of
        None \<Rightarrow> startAssistance_catch s
      | Some session \<Rightarrow>
          let s1 = s\<lparr> sessionRef := Some session \<rparr>;
              s2 = speak SayActive (s1\<lparr> status := ACTIVE \<rparr>);
              h = Suc (nextTimer s2)
          in s2\<lparr> timers := insert h (timers s2), nextTimer := h,
                 frameIntervalRef := Some h \<rparr>)"

text \<open>\<open>String.prototype.split(',')\<close> and the read of index 1 of the result (line 104).\<close>

fun split_on :: "char \<Rightarrow> string \<Rightarrow> string list" where
  "split_on c [] = [[]]"
| "split_on c (x # xs) =
     (if x = c then [] # split_on c xs
      else (case split_on c xs of
              [] \<Rightarrow> [[x]]
            | w # ws \<Rightarrow> (x # w) # ws))"

definition index1 :: "'a list \<Rightarrow> 'a option" where
  "index1 xs = (case xs of _ # y # _ \<Rightarrow> Some y | _ \<Rightarrow> None)"

text \<open>
  The interval callback, lines 89-112. \<open>has2d\<close> says whether \<open>getContext('2d')\<close>
  returned a context; \<open>blob\<close> is the outcome of \<open>canvas.toBlob\<close>: \<open>None\<close> when the
  encoder produced no blob, otherwise the data URL that the file reader reads from the
  blob. The two nested callbacks (\<open>toBlob\<close>, \<open>onloadend\<close>) run later than the tick
  in the browser; here their effect is part of the tick.
\<close>

definition frameTick :: "bool \<Rightarrow> string option \<Rightarrow> app \<Rightarrow> app" where
  "frameTick has2d blob s =
     (case videoRef s of None \<Rightarrow> s | Some video \<Rightarrow>
      case canvasRef s of None \<Rightarrow> s | Some canvas \<Rightarrow>
      case sessionRef s of None \<Rightarrow> s | Some session \<Rightarrow>
        if \<not> has2d then s
        else
          let s1 = s\<lparr> canvasRef := Some (canvas\<lparr> canvas_width := videoWidth video,
                                                  canvas_height := videoHeight video \<rparr>) \<rparr>
          in (case blob of
                None \<Rightarrow> s1
              | Some dataUrl \<Rightarrow>
                  s1\<lparr> sent := sent s1 @
                        [\<lparr> data = Base64 (index1 (split_on CHR '','' dataUrl)),
                           mimeType = ''image/jpeg'' \<rparr>] \<rparr>))"

text \<open>The browser runs the callback of an interval only while its handle is live.\<close>

definition interval_fires :: "nat \<Rightarrow> app \<Rightarrow> bool" where
  "interval_fires h s = (h \<in> timers s)"

text \<open>
  \<open>scriptProcessor.onaudioprocess\<close>, lines 117-123. \<open>createPcmBlob\<close> is imported
  from a module that is not part of the sources at hand, so the encoder is the argument
  \<open>enc\<close>. \<open>closureStatus\<close> is the constant \<open>status\<close> of the render whose
  \<open>startAssistance\<close> installed the callback: a later \<open>setStatus\<close> does not change it.
\<close>

definition onaudioprocess :: "(real list \<Rightarrow> Blob) \<Rightarrow> AppState \<Rightarrow> real list \<Rightarrow> app \<Rightarrow> app" where
  "onaudioprocess enc closureStatus inputData s =
     (if closureStatus = ACTIVE \<and> sessionRef s \<noteq> None
      then s\<lparr> sent := sent s @ [enc inputData] \<rparr>
      else s)"

text \<open>
  \<open>stopAssistance\<close>, lines 134-142. A number is truthy when it is not 0, so
  \<open>clearInterval\<close> is skipped for the handle 0. A session and a stream are objects,
  and every object is truthy.
\<close>

definition stopAssistance :: "app \<Rightarrow> app" where
  "stopAssistance s =
     (let s1 = (case frameIntervalRef s of
                  None \<Rightarrow> s
                | Some h \<Rightarrow> if h \<noteq> 0 then s\<lparr> timers := timers s - {h} \<rparr> else s);
          s2 = (case sessionRef s1 of
                  None \<Rightarrow> s1
                | Some session \<Rightarrow> s1\<lparr> closedSessions := insert session (closedSessions s1) \<rparr>);
          s3 = stopAudio s2;
          s4 = (case videoRef s3 of
                  None \<Rightarrow> s3
                | Some video \<Rightarrow>
                    (case srcObject video of
                       None \<Rightarrow> s3
                     | Some stream \<Rightarrow> s3\<lparr> endedTracks := endedTracks s3 \<union> set stream \<rparr>))
      in s4\<lparr> status := IDLE \<rparr>)"

section \<open>The transport's message handler (src/types.ts lines 57-82)\<close>

text \<open>
  The part of a server message that \<open>onmessage\<close> reads. \<open>audio\<close> is the buffer that
  \<open>decodeAudioData\<close> returns for the inline data of the first part, \<open>None\<close> when the
  message has none.
\<close>

record ServerMessage =
  audio :: "AudioBuffer option"
  interrupted :: bool
  outputTranscription :: "string option"
  inputTranscription :: "string option"

definition onmessage :: "ServerMessage \<Rightarrow> real \<Rightarrow> app \<Rightarrow> app" where
  "onmessage m currentTime s =
     (let s1 = (case audio m of None \<Rightarrow> s | Some buf \<Rightarrow> onAudioOutput buf currentTime s);
          s2 = (if interrupted m then onInterrupted s1 else s1);
          s3 = (case outputTranscription m of
                  None \<Rightarrow> s2 | Some text \<Rightarrow> onTranscription text False s2)
      in (case inputTranscription m of
            None \<Rightarrow> s3 | Some text \<Rightarrow> onTranscription text True s3))"

text \<open>A run of chunks, each with the clock reading at its callback, in arrival order.\<close>

fun deliver :: "(AudioBuffer \<times> real) list \<Rightarrow> app \<Rightarrow> app" where
  "deliver [] s = s"
| "deliver ((buf, currentTime) # cs) s = deliver cs (onAudioOutput buf currentTime s)"

section \<open>The PCM encoder\<close>

text \<open>
  Modelled from the spec: \<open>createPcmBlob\<close> is imported from \<open>./utils/audio-utils\<close>,
  a module of the repository whose source is not at hand. The spec (section 4.1) says:
  floating-point samples, nominally in [-1.0, 1.0], become a little-endian 16-bit PCM
  frame with as many samples, together with a fixed mime tag; samples out of range are
  clamped. The spec fixes neither the integer that full scale maps to nor the text of
  the tag, so both are arguments (\<open>scale\<close>, \<open>tag\<close>). Fractions are cut off towards
  zero, as a store into a 16-bit integer array does. Samples are real numbers here.
\<close>

definition clamp_sample :: "real \<Rightarrow> real" where
  "clamp_sample x = max (- 1) (min 1 x)"

definition truncate_real :: "real \<Rightarrow> int" where
  "truncate_real y = (if 0 \<le> y then \<lfloor>y\<rfloor> else \<lceil>y\<rceil>)"

definition to_int16 :: "nat \<Rightarrow> real \<Rightarrow> 16 word" where
  "to_int16 scale x = word_of_int (truncate_real (clamp_sample x * real scale))"

definition le_bytes :: "16 word \<Rightarrow> 8 word list" where
  "le_bytes w = [ucast w, ucast (drop_bit 8 w)]"

definition pcm_bytes :: "nat \<Rightarrow> real list \<Rightarrow> 8 word list" where
  "pcm_bytes scale samples = concat (map (\<lambda>x. le_bytes (to_int16 scale x)) samples)"

definition createPcmBlob :: "nat \<Rightarrow> string \<Rightarrow> real list \<Rightarrow> Blob" where
  "createPcmBlob scale tag samples =
     \<lparr> data = Binary (pcm_bytes scale samples), mimeType = tag \<rparr>"

section \<open>Derived notions and example states\<close>




text \<open>
  A session brought up from the first render: the click, a stream with the tracks 1 and
  2, and the transport session 7.
\<close>

definition active_example :: app where
  "active_example =
     startAssistance_connected (Some 7)
       (startAssistance_gotMedia (Some [1, 2]) (startAssistance_begin initial_app))"

text \<open>Half a second of audio at 24 kHz.\<close>

definition half_second :: AudioBuffer where
  "half_second = \<lparr> buf_length = 12000, buf_sampleRate = 24000 \<rparr>"

definition three_chunks :: "(AudioBuffer \<times> real) list" where
  "three_chunks = [(half_second, 0), (half_second, 0), (half_second, 0)]"

text \<open>The active session with two chunks scheduled while the clock reads 0.\<close>

definition playing_example :: app where
  "playing_example = deliver [(half_second, 0), (half_second, 0)] active_example"

section \<open>Basic facts\<close>

lemma duration_nonneg: "0 \<le> duration b"
  by (simp add: duration_def)

lemma active_example_eq:
  "active_example = initial_app\<lparr> status := ACTIVE,
       videoRef := Some \<lparr> srcObject = Some [1, 2], videoWidth = 0, videoHeight = 0 \<rparr>,
       audioContextRef := Some \<lparr> sampleRate = 24000 \<rparr>,
       inputAudioContextRef := Some \<lparr> sampleRate = 16000 \<rparr>,
       sessionRef := Some 7, frameIntervalRef := Some 1, timers := {1}, nextTimer := 1,
       spoken := [SayStarting, SayActive] \<rparr>"
  by (simp add: active_example_def startAssistance_connected_def startAssistance_gotMedia_def
      startAssistance_begin_def initial_app_def speak_def)

lemma playing_example_eq:
  "playing_example = active_example\<lparr> nextStartTimeRef := 1, nextNode := 2,
       started := [Playback 0 half_second 0, Playback 1 half_second (1/2)],
       activeSourcesRef := {0, 1} \<rparr>"
  by (simp add: playing_example_def active_example_eq initial_app_def onAudioOutput_def Let_def
      half_second_def duration_def insert_commute)

text \<open>The scenario of three back-to-back chunks of half a second with the clock at 0.\<close>

lemma three_chunks_starts:
  "map startAt (started (deliver three_chunks active_example)) = [0, 1/2, 1]"
  by (simp add: three_chunks_def active_example_eq initial_app_def onAudioOutput_def Let_def
      half_second_def duration_def)

section \<open>Scheduling of inbound audio\<close>

lemma onAudioOutput_step:
  "audioContextRef s \<noteq> None \<Longrightarrow>
   onAudioOutput buf now s =
     s\<lparr> nextStartTimeRef := max (nextStartTimeRef s) now + duration buf,
        nextNode := Suc (nextNode s),
        started := started s @ [Playback (nextNode s) buf (max (nextStartTimeRef s) now)],
        activeSourcesRef := insert (nextNode s) (activeSourcesRef s) \<rparr>"
  by (cases "audioContextRef s") (simp_all add: onAudioOutput_def Let_def)

text \<open>
  The log of a run of deliveries: one entry per chunk, appended in arrival order; every
  entry starts at or after its clock reading and at or after the cursor the run began
  with, and at or after the end of every earlier entry of the run.
\<close>

lemma deliver_log:
  "audioContextRef s \<noteq> None \<Longrightarrow>
   \<exists>ps. started (deliver cs s) = started s @ ps \<and> length ps = length cs \<and>
        (\<forall>j<length cs. buffer (ps ! j) = fst (cs ! j) \<and> snd (cs ! j) \<le> startAt (ps ! j) \<and>
                        nextStartTimeRef s \<le> startAt (ps ! j)) \<and>
        (\<forall>i j. i < j \<and> j < length cs \<longrightarrow>
               startAt (ps ! i) + duration (buffer (ps ! i)) \<le> startAt (ps ! j))"
proof (induction cs arbitrary: s)
  case Nil
  then show ?case by simp
next
  case (Cons c cs)
  obtain b t where c: "c = (b, t)" by (cases c)
  define s' where "s' = onAudioOutput b t s"
  define p where "p = Playback (nextNode s) b (max (nextStartTimeRef s) t)"
  have step: "s' = s\<lparr> nextStartTimeRef := max (nextStartTimeRef s) t + duration b,
        nextNode := Suc (nextNode s),
        started := started s @ [p],
        activeSourcesRef := insert (nextNode s) (activeSourcesRef s) \<rparr>"
    unfolding s'_def p_def using Cons.prems by (rule onAudioOutput_step)
  have ctx: "audioContextRef s' \<noteq> None"
    using Cons.prems by (simp add: step)
  have log: "started s' = started s @ [p]"
    by (simp add: step)
  have cur: "nextStartTimeRef s' = startAt p + duration (buffer p)"
    by (simp add: step p_def)
  have p_time: "t \<le> startAt p" "nextStartTimeRef s \<le> startAt p" "buffer p = b"
    by (simp_all add: p_def)
  from Cons.IH [OF ctx] obtain ps where
    ps1: "started (deliver cs s') = started s' @ ps" and
    ps2: "length ps = length cs" and
    ps3: "\<And>j. j < length cs \<Longrightarrow>
            buffer (ps ! j) = fst (cs ! j) \<and> snd (cs ! j) \<le> startAt (ps ! j) \<and>
            nextStartTimeRef s' \<le> startAt (ps ! j)" and
    ps4: "\<And>i j. i < j \<Longrightarrow> j < length cs \<Longrightarrow>
            startAt (ps ! i) + duration (buffer (ps ! i)) \<le> startAt (ps ! j)"
    by blast
  have up: "nextStartTimeRef s \<le> nextStartTimeRef s'"
    using duration_nonneg [of "buffer p"] p_time(2) by (simp add: cur)
  have a: "started (deliver (c # cs) s) = started s @ (p # ps)"
    by (simp add: c s'_def [symmetric] ps1 log)
  have b: "length (p # ps) = length (c # cs)"
    by (simp add: ps2)
  have d: "buffer ((p # ps) ! j) = fst ((c # cs) ! j) \<and>
           snd ((c # cs) ! j) \<le> startAt ((p # ps) ! j) \<and>
           nextStartTimeRef s \<le> startAt ((p # ps) ! j)" if "j < length (c # cs)" for j
  proof (cases j)
    case 0
    then show ?thesis using p_time by (simp add: c)
  next
    case (Suc k)
    with that have "k < length cs" by simp
    from ps3 [OF this] up show ?thesis by (simp add: Suc)
  qed
  have e: "startAt ((p # ps) ! i) + duration (buffer ((p # ps) ! i)) \<le> startAt ((p # ps) ! j)"
    if "i < j" "j < length (c # cs)" for i j
  proof -
    from that obtain k where j: "j = Suc k" and k: "k < length cs"
      by (cases j) auto
    show ?thesis
    proof (cases i)
      case 0
      from ps3 [OF k] show ?thesis by (simp add: 0 j cur)
    next
      case (Suc i')
      with that j have "i' < k" by simp
      from ps4 [OF this k] show ?thesis by (simp add: Suc j)
    qed
  qed
  from a b d e show ?case by blast
qed

text \<open>
  C1. With the output context in place, \<open>onAudioOutput\<close> starts the chunk at the
  maximum of the cursor and the clock reading and moves the cursor to that start plus the
  chunk's duration. For a run of chunks delivered one after the other, the calls of
  \<open>source.start\<close> the run adds to the log are one per chunk, in order; none starts
  before the clock reading of its callback; and a chunk scheduled later starts no earlier
  than the start plus the duration of any chunk scheduled before it.
\<close>

theorem onAudioOutput_schedule:
  assumes "audioContextRef s \<noteq> None"
  shows "started (onAudioOutput buf now s) =
           started s @ [Playback (nextNode s) buf (max (nextStartTimeRef s) now)] \<and>
         nextStartTimeRef (onAudioOutput buf now s) =
           max (nextStartTimeRef s) now + duration buf \<and>
         take (length (started s)) (started (deliver cs s)) = started s \<and>
         length (drop (length (started s)) (started (deliver cs s))) = length cs \<and>
         (\<forall>j<length cs.
            buffer (drop (length (started s)) (started (deliver cs s)) ! j) = fst (cs ! j) \<and>
            snd (cs ! j) \<le> startAt (drop (length (started s)) (started (deliver cs s)) ! j)) \<and>
         (\<forall>i j. i < j \<and> j < length cs \<longrightarrow>
            startAt (drop (length (started s)) (started (deliver cs s)) ! i) +
            duration (buffer (drop (length (started s)) (started (deliver cs s)) ! i))
            \<le> startAt (drop (length (started s)) (started (deliver cs s)) ! j))"
proof -
  from deliver_log [OF assms, of cs] obtain ps where
    ps: "started (deliver cs s) = started s @ ps" "length ps = length cs"
      "\<forall>j<length cs. buffer (ps ! j) = fst (cs ! j) \<and> snd (cs ! j) \<le> startAt (ps ! j) \<and>
                        nextStartTimeRef s \<le> startAt (ps ! j)"
      "\<forall>i j. i < j \<and> j < length cs \<longrightarrow>
               startAt (ps ! i) + duration (buffer (ps ! i)) \<le> startAt (ps ! j)"
    by blast
  have dr: "drop (length (started s)) (started (deliver cs s)) = ps"
    by (simp add: ps(1))
  have tk: "take (length (started s)) (started (deliver cs s)) = started s"
    by (simp add: ps(1))
  have one: "started (onAudioOutput buf now s) =
           started s @ [Playback (nextNode s) buf (max (nextStartTimeRef s) now)] \<and>
         nextStartTimeRef (onAudioOutput buf now s) =
           max (nextStartTimeRef s) now + duration buf"
    by (simp add: onAudioOutput_step [OF assms])
  show ?thesis
    unfolding dr using one tk ps(2,3,4) by blast
qed

theorem onAudioOutput_schedule_witness:
  "audioContextRef playing_example \<noteq> None \<and>
   started (onAudioOutput half_second (3/10) playing_example) =
     started playing_example @ [Playback 2 half_second 1] \<and>
   nextStartTimeRef (onAudioOutput half_second (3/10) playing_example) = 3/2 \<and>
   length (drop 2 (started (deliver three_chunks playing_example))) = 3 \<and>
   (0::nat) < 2 \<and> (2::nat) < 3 \<and>
   startAt (drop 2 (started (deliver three_chunks playing_example)) ! 0) +
   duration (buffer (drop 2 (started (deliver three_chunks playing_example)) ! 0))
     \<le> startAt (drop 2 (started (deliver three_chunks playing_example)) ! 2) \<and>
   map startAt (drop 2 (started (deliver three_chunks playing_example))) = [1, 3/2, 2]"
proof -
  have h: "audioContextRef playing_example \<noteq> None"
    by (simp add: playing_example_eq active_example_eq initial_app_def)
  have n: "length (started playing_example) = 2" "nextNode playing_example = 2"
    "nextStartTimeRef playing_example = 1" "length three_chunks = 3"
    "duration half_second = 1/2"
    by (simp_all add: playing_example_eq three_chunks_def half_second_def duration_def)
  have arith: "max (1::real) (3/10) = 1" "(1::real) + 1/2 = 3/2"
    by simp_all
  note w = onAudioOutput_schedule [OF h, of half_second "3/10" three_chunks, unfolded n arith]
  have ord: "(0::nat) < 2 \<and> (2::nat) < 3"
    by simp
  have starts: "map startAt (drop 2 (started (deliver three_chunks playing_example))) = [1, 3/2, 2]"
    by (simp add: three_chunks_def playing_example_eq active_example_eq initial_app_def
        onAudioOutput_def Let_def half_second_def duration_def)
  from h w ord starts show ?thesis by blast
qed

section \<open>Interruption\<close>

text \<open>
  C2. After \<open>onInterrupted\<close>, \<open>stop()\<close> has been called on every source that was
  in the active set, the active set is empty and the cursor is 0. With the output context
  in place and a clock that is not negative, the chunk that arrives next is started at
  the clock reading, whatever the cursor was before the interrupt.
\<close>

theorem onInterrupted_flush:
  "activeSourcesRef s \<subseteq> stopped (onInterrupted s) \<and>
   activeSourcesRef (onInterrupted s) = {} \<and>
   nextStartTimeRef (onInterrupted s) = 0 \<and>
   (audioContextRef s \<noteq> None \<and> 0 \<le> now \<longrightarrow>
      started (onAudioOutput buf now (onInterrupted s)) =
        started s @ [Playback (nextNode s) buf now])"
  by (cases "audioContextRef s")
     (simp_all add: onInterrupted_def stopAudio_def onAudioOutput_def Let_def max_def)

theorem onInterrupted_flush_witness:
  "audioContextRef playing_example \<noteq> None \<and> (0::real) \<le> 3/10 \<and>
   nextStartTimeRef playing_example = 1 \<and>
   stopped (onInterrupted playing_example) = {0, 1} \<and>
   map startAt (started (onAudioOutput half_second (3/10) (onInterrupted playing_example)))
     = [0, 1/2, 3/10]"
  using onInterrupted_flush [of playing_example "3/10" half_second]
  by (simp add: playing_example_eq active_example_eq initial_app_def onInterrupted_def
      stopAudio_def insert_commute)

section \<open>Transcripts\<close>

text \<open>
  C7. \<open>onTranscription\<close> with the user flag set returns the state it was given;
  with the flag clear it changes \<open>lastTranscript\<close> and nothing else. The same holds
  for a server message that carries only an input transcription, respectively only an
  output transcription, which \<open>onmessage\<close> passes on with the flag set, respectively
  clear.
\<close>

theorem onTranscription_user_unchanged:
  "onTranscription text True s = s \<and>
   onTranscription text False s = s\<lparr> lastTranscript := text \<rparr> \<and>
   onmessage \<lparr> audio = None, interrupted = False, outputTranscription = None,
               inputTranscription = Some text \<rparr> now s = s \<and>
   onmessage \<lparr> audio = None, interrupted = False, outputTranscription = Some text,
               inputTranscription = None \<rparr> now s = s\<lparr> lastTranscript := text \<rparr>"
  by (simp add: onTranscription_def onmessage_def)

section \<open>Frame ticks\<close>

text \<open>
  C8. A tick whose encoder produces no blob sends nothing and fails nowhere: the log of
  sent payloads, the status, the session, the stored interval handle and the live
  intervals are as before, and the whole state is as before except for the size of the
  canvas the frame was drawn on.
\<close>

theorem frameTick_no_blob:
  "sent (frameTick has2d None s) = sent s \<and>
   status (frameTick has2d None s) = status s \<and>
   sessionRef (frameTick has2d None s) = sessionRef s \<and>
   frameIntervalRef (frameTick has2d None s) = frameIntervalRef s \<and>
   timers (frameTick has2d None s) = timers s \<and>
   frameTick has2d None s = s\<lparr> canvasRef := canvasRef (frameTick has2d None s) \<rparr>"
  by (simp add: frameTick_def Let_def split: option.splits)

text \<open>For contrast: a tick whose encoder produces a blob sends one image payload.\<close>

lemma frameTick_blob_example:
  "sent (frameTick True (Some ''data:image/jpeg;base64,AAAA'') active_example) =
     [\<lparr> data = Base64 (Some ''AAAA''), mimeType = ''image/jpeg'' \<rparr>]"
  by (simp add: active_example_eq initial_app_def frameTick_def Let_def index1_def)

section \<open>Audio output before the context exists\<close>

text \<open>
  C10. While the output audio context is null, \<open>onAudioOutput\<close> returns the state it
  was given: nothing is scheduled, the cursor and the active set are untouched.
\<close>

theorem onAudioOutput_no_context:
  "audioContextRef s = None \<Longrightarrow> onAudioOutput buf now s = s"
  by (simp add: onAudioOutput_def)

theorem onAudioOutput_no_context_witness:
  "audioContextRef initial_app = None \<and>
   onAudioOutput half_second 3 initial_app = initial_app"
  using onAudioOutput_no_context [of initial_app half_second 3]
  by (simp add: initial_app_def)

section \<open>Stopping\<close>






lemma stopAssistance_first_render: "stopAssistance initial_app = initial_app"
  by (simp add: stopAssistance_def stopAudio_def Let_def initial_app_def)

text \<open>
  C9. From any state whatever, and so from any status, \<open>stopAssistance\<close> returns a
  state with status IDLE, an empty active set and the cursor at 0, in which the interval
  of the stored handle no longer fires. (Handles given out by \<open>setInterval\<close> are
  positive; the handle 0 would fail the truthiness test of line 135.)
\<close>

theorem stopAssistance_any_state:
  "status (stopAssistance s) = IDLE \<and>
   activeSourcesRef (stopAssistance s) = {} \<and>
   nextStartTimeRef (stopAssistance s) = 0 \<and>
   (\<forall>h. frameIntervalRef s = Some h \<and> h \<noteq> 0 \<longrightarrow> \<not> interval_fires h (stopAssistance s))"
  by (simp add: stopAssistance_def stopAudio_def interval_fires_def Let_def split: option.splits)

theorem stopAssistance_any_state_witness:
  "frameIntervalRef playing_example = Some 1 \<and> (1::nat) \<noteq> 0 \<and>
   status playing_example = ACTIVE \<and>
   interval_fires 1 playing_example \<and>
   \<not> interval_fires 1 (stopAssistance playing_example) \<and>
   status (stopAssistance playing_example) = IDLE \<and>
   activeSourcesRef playing_example = {0, 1} \<and>
   activeSourcesRef (stopAssistance playing_example) = {} \<and>
   nextStartTimeRef playing_example = 1 \<and>
   nextStartTimeRef (stopAssistance playing_example) = 0"
  using stopAssistance_any_state [of playing_example]
  by (simp add: playing_example_eq active_example_eq initial_app_def interval_fires_def insert_commute)

section \<open>The three ways out of an active session\<close>

text \<open>
  C3. What the code does after a transport close, and after a transport error, in the
  active example: the status is IDLE, respectively ERROR, the frame interval still fires,
  and a tick then sends an image frame. After \<open>stopAssistance\<close> the interval does not
  fire.
\<close>

theorem frame_cadence_outlives_session:
  "status (onClose active_example) = IDLE \<and>
   interval_fires 1 (onClose active_example) \<and>
   sent (frameTick True (Some ''data:image/jpeg;base64,AAAA'') (onClose active_example)) =
     [\<lparr> data = Base64 (Some ''AAAA''), mimeType = ''image/jpeg'' \<rparr>] \<and>
   status (onError active_example) = ERROR \<and>
   interval_fires 1 (onError active_example) \<and>
   sent (frameTick True (Some ''data:image/jpeg;base64,AAAA'') (onError active_example)) =
     [\<lparr> data = Base64 (Some ''AAAA''), mimeType = ''image/jpeg'' \<rparr>] \<and>
   \<not> interval_fires 1 (stopAssistance active_example)"
  by (simp add: active_example_eq initial_app_def onClose_def onError_def speak_def
      interval_fires_def frameTick_def Let_def index1_def stopAssistance_def stopAudio_def)

text \<open>
  C4. What the three paths leave behind in the example with two scheduled chunks:
  \<open>stopAssistance\<close> leaves no live interval, an empty active set, both sources
  stopped, both tracks ended and the session closed; \<open>onClose\<close> and \<open>onError\<close>
  leave the interval live, both sources in the active set and not stopped, and no track
  ended.
\<close>

theorem teardown_paths_differ:
  "timers (stopAssistance playing_example) = {} \<and>
   activeSourcesRef (stopAssistance playing_example) = {} \<and>
   stopped (stopAssistance playing_example) = {0, 1} \<and>
   endedTracks (stopAssistance playing_example) = {1, 2} \<and>
   closedSessions (stopAssistance playing_example) = {7} \<and>
   timers (onClose playing_example) = {1} \<and>
   activeSourcesRef (onClose playing_example) = {0, 1} \<and>
   stopped (onClose playing_example) = {} \<and>
   endedTracks (onClose playing_example) = {} \<and>
   timers (onError playing_example) = {1} \<and>
   activeSourcesRef (onError playing_example) = {0, 1} \<and>
   stopped (onError playing_example) = {} \<and>
   endedTracks (onError playing_example) = {} \<and>
   closedSessions (onError playing_example) = {}"
  by (simp add: playing_example_eq active_example_eq initial_app_def onClose_def onError_def
      speak_def stopAssistance_def stopAudio_def Let_def insert_commute)


section \<open>The PCM frame\<close>

lemma le_bytes_cat: "word_cat (le_bytes w ! 1) (le_bytes w ! 0) = w"
  by (rule bit_word_eqI) (auto simp add: le_bytes_def bit_simps)

lemma length_pcm_bytes: "length (pcm_bytes scale samples) = 2 * length samples"
  by (induction samples) (simp_all add: pcm_bytes_def le_bytes_def)

lemma clamp_sample_idem: "clamp_sample (clamp_sample x) = clamp_sample x"
  by (simp add: clamp_sample_def)

lemma pcm_bytes_clamp: "pcm_bytes scale (map clamp_sample samples) = pcm_bytes scale samples"
  by (simp add: pcm_bytes_def to_int16_def clamp_sample_idem comp_def)

lemma pcm_bytes_silence: "pcm_bytes scale (replicate n 0) = replicate (2 * n) 0"
  by (induction n) (simp_all add: pcm_bytes_def to_int16_def clamp_sample_def truncate_real_def le_bytes_def)

lemma pcm_bytes_nth:
  "k < length samples \<Longrightarrow>
   pcm_bytes scale samples ! (2 * k) = le_bytes (to_int16 scale (samples ! k)) ! 0 \<and>
   pcm_bytes scale samples ! (2 * k + 1) = le_bytes (to_int16 scale (samples ! k)) ! 1"
proof (induction samples arbitrary: k)
  case Nil
  then show ?case by simp
next
  case (Cons x xs)
  have unfold: "pcm_bytes scale (x # xs) = le_bytes (to_int16 scale x) @ pcm_bytes scale xs"
    by (simp add: pcm_bytes_def)
  have len: "length (le_bytes (to_int16 scale x)) = 2"
    by (simp add: le_bytes_def)
  show ?case
  proof (cases k)
    case 0
    then show ?thesis by (simp add: unfold nth_append len)
  next
    case (Suc j)
    with Cons.prems have "j < length xs" by simp
    from Cons.IH [OF this] show ?thesis
      by (simp add: unfold nth_append len Suc)
  qed
qed

lemma to_int16_range:
  assumes "scale \<le> 32767"
  shows "- int scale \<le> sint (to_int16 scale x) \<and> sint (to_int16 scale x) \<le> int scale"
proof -
  define y where "y = clamp_sample x * real scale"
  have c: "- 1 \<le> clamp_sample x" "clamp_sample x \<le> 1"
    by (simp_all add: clamp_sample_def)
  have "(- 1) * real scale \<le> clamp_sample x * real scale"
    using c(1) by (intro mult_right_mono) simp_all
  moreover have "clamp_sample x * real scale \<le> 1 * real scale"
    using c(2) by (intro mult_right_mono) simp_all
  ultimately have "- real scale \<le> y" "y \<le> real scale"
    by (simp_all add: y_def)
  then have t: "- int scale \<le> truncate_real y" "truncate_real y \<le> int scale"
    by (auto simp add: truncate_real_def le_floor_iff floor_le_iff ceiling_le_iff le_ceiling_iff)
  have "sint (to_int16 scale x) = truncate_real y"
    unfolding to_int16_def y_def [symmetric]
    using t assms by (simp add: sint_sbintrunc' signed_take_bit_int_eq_self)
  then show ?thesis using t by simp
qed

text \<open>
  C6. For every sample list (in range or not) the encoder returns a frame: two bytes per
  sample, low byte first, with the tag it was given. Byte pair \<open>k\<close> read as a
  little-endian 16-bit word is the quantised sample \<open>k\<close>; for a full scale that fits
  16 bits the quantised value lies between minus and plus full scale. Clamping the input
  beforehand does not change the frame. A list of zeros gives a frame of zero bytes of
  the right length. (Being a function, the encoder gives equal frames for equal inputs.)
\<close>

theorem createPcmBlob_frame:
  "data (createPcmBlob scale tag samples) = Binary (pcm_bytes scale samples) \<and>
   mimeType (createPcmBlob scale tag samples) = tag \<and>
   length (pcm_bytes scale samples) = 2 * length samples \<and>
   (\<forall>k<length samples.
      word_cat (pcm_bytes scale samples ! (2 * k + 1)) (pcm_bytes scale samples ! (2 * k)) =
        to_int16 scale (samples ! k)) \<and>
   (scale \<le> 32767 \<longrightarrow>
      (\<forall>x. - int scale \<le> sint (to_int16 scale x) \<and> sint (to_int16 scale x) \<le> int scale)) \<and>
   createPcmBlob scale tag (map clamp_sample samples) = createPcmBlob scale tag samples \<and>
   createPcmBlob scale tag (replicate n 0) =
     \<lparr> data = Binary (replicate (2 * n) 0), mimeType = tag \<rparr>"
proof -
  have "word_cat (pcm_bytes scale samples ! (2 * k + 1)) (pcm_bytes scale samples ! (2 * k)) =
        to_int16 scale (samples ! k)" if "k < length samples" for k
    using pcm_bytes_nth [OF that, of scale] le_bytes_cat [of "to_int16 scale (samples ! k)"]
    by simp
  then show ?thesis
    using to_int16_range [of scale]
    by (simp add: createPcmBlob_def length_pcm_bytes pcm_bytes_clamp pcm_bytes_silence)
qed

theorem createPcmBlob_frame_witness:
  "(32767::nat) \<le> 32767 \<and>
   createPcmBlob 32767 ''audio/pcm'' [0, 1, - 2, 1/2] =
     \<lparr> data = Binary [0, 0, 255, 127, 1, 128, 255, 63], mimeType = ''audio/pcm'' \<rparr> \<and>
   sint (to_int16 32767 (- 2)) = - 32767 \<and>
   sint (to_int16 32767 3) = 32767 \<and>
   createPcmBlob 32767 ''audio/pcm'' [0, 0] =
     \<lparr> data = Binary [0, 0, 0, 0], mimeType = ''audio/pcm'' \<rparr>"
  using createPcmBlob_frame [of 32767 "''audio/pcm''" "[0, 1, - 2, 1/2]" 2]
  by (simp add: createPcmBlob_def pcm_bytes_def to_int16_def clamp_sample_def truncate_real_def
      le_bytes_def)

end
